theory Spec2Isabelle
  imports Complex_Main "HOL-Library.Sublist"
begin

section \<open>The form-submission handler of \<^verbatim>\<open>src/api/submit.js\<close>\<close>

text \<open>
  The repository is one asynchronous request handler. It is embedded as a pure function
  from the request, the environment (the CAPTCHA verifier and the store client, both
  external) and the state of the store to a result: what the handler answered (or the
  exception that escaped it), the external calls and log lines it made, in order, and
  the store it left behind.

  Modelling conventions.
  \<^item> A JavaScript string is the list of the bytes of its UTF-8 encoding (the encoding of
    the source file). The handler only tests strings for emptiness, searches and splits
    them at \<^verbatim>\<open>'@'\<close>, compares them and lower-cases them; on well-formed strings the
    first four agree with the UTF-16 view of JavaScript. \<^verbatim>\<open>toLowerCase\<close> is computed
    on strings of ASCII characters; on any other string it is the case mapping of
    Unicode, whose tables are not part of the repository and are a parameter of the
    model.
  \<^item> \<^verbatim>\<open>formData\<close> is a JSON object or absent, and its fields are arbitrary JSON values
    (a \<^verbatim>\<open>formData\<close> that is not an object has no \<^verbatim>\<open>user_email\<close>, as an absent one).
    The other fields of the request body, those of the CAPTCHA verdict and of the store's
    answers have the type the interface gives them; a field that is absent
    (\<^verbatim>\<open>undefined\<close>) is \<open>None\<close>.
  \<^item> A number is its exact rational value. Every finite double is a rational, and
    \<^verbatim>\<open><\<close> on finite doubles is \<open><\<close> on their values; a comparison with
    \<^verbatim>\<open>undefined\<close> is false, as with \<^verbatim>\<open>NaN\<close>.
  \<^item> Each \<^verbatim>\<open>await\<close> may reject: the external calls return \<open>Inl\<close> of the error then.
\<close>

subsection \<open>Static configuration (lines 10 to 14)\<close>

definition BLOCKED_DOMAINS :: "string list" where
  "BLOCKED_DOMAINS =
     [''mailinator.com'', ''tempmail.com'', ''yopmail.com'', ''guerrillamail.com'',
      ''10minutemail.com'', ''sharklasers.com'', ''throwawaymail.com'', ''getnada.com'']"

definition BLOCKED_TLDS :: "string list" where
  "BLOCKED_TLDS =
     [''.xyz'', ''.icu'', ''.top'', ''.tk'', ''.ml'', ''.ga'', ''.cf'', ''.gq'', ''.ru'', ''.cn'']"

subsection \<open>The string operations the handler uses\<close>

text \<open>\<^verbatim>\<open>s.includes('@')\<close>, for a one-character search string.\<close>

definition includes_str :: "string \<Rightarrow> char \<Rightarrow> bool" where
  "includes_str s c = (c \<in> set s)"

text \<open>
  \<^verbatim>\<open>s.split('@')\<close>: the segments between the separators, in order; a string without
  separator is its own single segment, and the empty string gives one empty segment.
\<close>

fun split_from :: "char \<Rightarrow> string \<Rightarrow> string \<Rightarrow> string list" where
  "split_from sep seg [] = [rev seg]"
| "split_from sep seg (c # cs) =
     (if c = sep then rev seg # split_from sep [] cs else split_from sep (c # seg) cs)"

definition split :: "string \<Rightarrow> char \<Rightarrow> string list" where
  "split s sep = split_from sep [] s"

text \<open>
  \<^verbatim>\<open>s.toLowerCase()\<close>. On a string of ASCII characters the letters A to Z go to a to
  z and every other character stays: that is the lower-case mapping of Unicode on ASCII.
  On a string with a character beyond ASCII (a byte with the top bit set) the result is
  what the case-mapping tables of Unicode give, for instance \<^verbatim>\<open>k\<close> for the Kelvin sign
  U+212A; the tables belong to the JavaScript runtime, and the model takes the mapping
  of such strings as the parameter \<open>unicode_lower\<close>.
\<close>

definition lower_char :: "char \<Rightarrow> char" where
  "lower_char c =
     (case map_of (zip ''ABCDEFGHIJKLMNOPQRSTUVWXYZ'' ''abcdefghijklmnopqrstuvwxyz'') c of
        Some l \<Rightarrow> l
      | None \<Rightarrow> c)"

definition is_ascii :: "string \<Rightarrow> bool" where
  "is_ascii s = list_all (\<lambda>c. \<not> digit7 c) s"

definition toLowerCase :: "(string \<Rightarrow> string) \<Rightarrow> string \<Rightarrow> string" where
  "toLowerCase unicode_lower s = (if is_ascii s then map lower_char s else unicode_lower s)"

text \<open>\<^verbatim>\<open>s.endsWith(t)\<close>: the last \<open>length t\<close> characters of \<open>s\<close> are \<open>t\<close>.\<close>

definition endsWith :: "string \<Rightarrow> string \<Rightarrow> bool" where
  "endsWith s t = (length t \<le> length s \<and> drop (length s - length t) s = t)"

text \<open>Interpolation \<^verbatim>\<open>${x}\<close> in a template literal.\<close>

definition interpolate :: "string option \<Rightarrow> string" where
  "interpolate x = (case x of None \<Rightarrow> ''undefined'' | Some s \<Rightarrow> s)"

subsection \<open>Requests, responses, the environment\<close>

text \<open>
  A JSON value, as the parser of the request body produces it. \<^verbatim>\<open>formData\<close> is a JSON
  object: the list of its fields (the first entry of a name counts).
\<close>

datatype jsval =
    JNull
  | JBool bool
  | JNum rat
  | JStr string
  | JArr "jsval list"
  | JObj "(string \<times> jsval) list"

type_synonym formData = "(string \<times> jsval) list"

record request_body =
  captchaToken :: "string option"
  honeypot :: "string option"
  formData :: "formData option"

text \<open>
  \<^verbatim>\<open>req.body\<close>: absent, \<^verbatim>\<open>null\<close>, a primitive value, or an object with the three
  fields the handler reads.
\<close>

datatype body =
    BodyUndefined
  | BodyNull
  | BodyString string
  | BodyNumber rat
  | BodyBoolean bool
  | BodyObject request_body

record request =
  req_method :: string
  body :: body

text \<open>The two shapes of response body: \<^verbatim>\<open>{success: true}\<close> and \<^verbatim>\<open>{error: msg}\<close>.\<close>

datatype json = SuccessTrue | ErrorBody string

datatype error = TypeError | Error string

text \<open>
  What a call of the handler comes to: \<^verbatim>\<open>res.status(n).json(b)\<close>, or an exception
  that no \<^verbatim>\<open>catch\<close> took (the promise of the handler is rejected, nothing is sent).
\<close>

datatype outcome = Responded nat json | Threw error

record captchaData =
  success :: bool
  score :: "rat option"
  action :: "string option"

text \<open>The error object of the store client.\<close>

record store_error =
  code :: string
  message :: string
  details :: string

datatype event =
    Warn_honeypot
  | Warn_captcha "rat option" "string option"
  | Error_insert store_error
  | Error_api error
  | Fetch string
  | Select_user_email jsval
  | Insert "formData option"

text \<open>
  The environment: the case mapping of the runtime for strings beyond ASCII, the secret
  of the process environment, the verifier reached by \<^verbatim>\<open>fetch\<close> (with the decoding of
  its JSON answer), and the two operations on the table \<^verbatim>\<open>diagnostic_submissions\<close>
  (\<open>'s\<close> is the state of the store).
\<close>

record 's env =
  unicode_lower :: "string \<Rightarrow> string"
  RECAPTCHA_SECRET_KEY :: "string option"
  fetch_json :: "string \<Rightarrow> error + captchaData"
  select_maybeSingle :: "'s \<Rightarrow> jsval \<Rightarrow> error + formData option"
  insert_row :: "'s \<Rightarrow> formData option \<Rightarrow> (error + store_error option) \<times> 's"

record 's result =
  outcome :: outcome
  events :: "event list"
  store :: 's

definition emit :: "event list \<Rightarrow> 's result \<Rightarrow> 's result" where
  "emit evs r = r\<lparr>events := evs @ events r\<rparr>"

subsection \<open>The handler (lines 16 to 98)\<close>

text \<open>
  The two literals of the conflict message, line 72 and line 85. Both are written with
  the typographic apostrophe U+2019, in UTF-8 the bytes E2 80 99.
\<close>

definition soft_check_message :: string where
  "soft_check_message =
     ''We'' @ [CHR 0xE2, CHR 0x80, CHR 0x99]
       @ ''ve already received a submission from this email address.''"

definition unique_violation_message :: string where
  "unique_violation_message =
     ''We'' @ [CHR 0xE2, CHR 0x80, CHR 0x99]
       @ ''ve already received a submission from this email address.''"

text \<open>Step 6, lines 77 to 93: the insert and the reading of its error.\<close>

definition insert_step :: "'s env \<Rightarrow> 's \<Rightarrow> formData option \<Rightarrow> 's result" where
  "insert_step env st fd =
     (case insert_row env st fd of
        (Inl e, st') \<Rightarrow> \<lparr>outcome = Threw e, events = [Insert fd], store = st'\<rparr>
      | (Inr insertError, st') \<Rightarrow>
          (case insertError of
             Some err \<Rightarrow>
               if code err = ''23505''
               then \<lparr>outcome = Responded 409 (ErrorBody unique_violation_message),
                      events = [Insert fd], store = st'\<rparr>
               else \<lparr>outcome = Threw (Error ''Database error''),
                      events = [Insert fd, Error_insert err], store = st'\<rparr>
           | None \<Rightarrow>
               \<lparr>outcome = Responded 200 SuccessTrue, events = [Insert fd], store = st'\<rparr>))"

text \<open>Step 5, lines 64 to 74: the soft uniqueness check.\<close>

definition uniqueness_step ::
  "'s env \<Rightarrow> 's \<Rightarrow> formData option \<Rightarrow> jsval \<Rightarrow> 's result" where
  "uniqueness_step env st fd user_email =
     (case select_maybeSingle env st user_email of
        Inl e \<Rightarrow> \<lparr>outcome = Threw e, events = [Select_user_email user_email], store = st\<rparr>
      | Inr existingUser \<Rightarrow>
          (case existingUser of
             Some row \<Rightarrow>
               \<lparr>outcome = Responded 409 (ErrorBody soft_check_message),
                 events = [Select_user_email user_email], store = st\<rparr>
           | None \<Rightarrow> emit [Select_user_email user_email] (insert_step env st fd)))"

text \<open>
  Line 57: \<^verbatim>\<open>!captchaData.success || captchaData.score < 0.5 || captchaData.action !== 'submit'\<close>.
\<close>

definition captcha_rejected :: "captchaData \<Rightarrow> bool" where
  "captcha_rejected captchaData =
     (\<not> success captchaData
      \<or> (case score captchaData of None \<Rightarrow> False | Some s \<Rightarrow> s < 0.5)
      \<or> action captchaData \<noteq> Some ''submit'')"

definition verifyUrl :: "string option \<Rightarrow> string option \<Rightarrow> string" where
  "verifyUrl recaptchaSecret token =
     ''https://www.google.com/recaptcha/api/siteverify?secret='' @ interpolate recaptchaSecret
       @ ''&response='' @ interpolate token"

text \<open>Step 4, lines 50 to 60: the call of the verifier and the gate on its verdict.\<close>

definition captcha_step ::
  "'s env \<Rightarrow> 's \<Rightarrow> string option \<Rightarrow> formData option \<Rightarrow> jsval \<Rightarrow> 's result" where
  "captcha_step env st token fd user_email =
     (let url = verifyUrl (RECAPTCHA_SECRET_KEY env) token in
      case fetch_json env url of
        Inl e \<Rightarrow> \<lparr>outcome = Threw e, events = [Fetch url], store = st\<rparr>
      | Inr captchaData \<Rightarrow>
          if captcha_rejected captchaData
          then \<lparr>outcome = Responded 403
                   (ErrorBody ''Security verification failed. Please try again.''),
                 events = [Fetch url, Warn_captcha (score captchaData) (action captchaData)],
                 store = st\<rparr>
          else emit [Fetch url] (uniqueness_step env st fd user_email))"

text \<open>
  Truthiness of a JSON value: \<^verbatim>\<open>null\<close>, \<^verbatim>\<open>false\<close>, zero and the empty string are
  falsy, every array and object is truthy.
\<close>

fun truthy :: "jsval \<Rightarrow> bool" where
  "truthy JNull = False"
| "truthy (JBool b) = b"
| "truthy (JNum n) = (n \<noteq> 0)"
| "truthy (JStr s) = (s \<noteq> [])"
| "truthy (JArr xs) = True"
| "truthy (JObj m) = True"

text \<open>
  Line 34: \<^verbatim>\<open>user_email.includes('@')\<close>. A string has the method of strings, an array
  the method of arrays (is some element the string \<^verbatim>\<open>'@'\<close>); a number, a boolean and an
  object of JSON have no function of that name, and the call throws.
\<close>

fun includes_at :: "jsval \<Rightarrow> error + bool" where
  "includes_at (JStr s) = Inr (includes_str s CHR ''@'')"
| "includes_at (JArr xs) = Inr (JStr ''@'' \<in> set xs)"
| "includes_at v = Inl TypeError"

text \<open>
  Line 39: \<^verbatim>\<open>user_email.split('@')[1].toLowerCase()\<close>. Only a string has
  \<^verbatim>\<open>split\<close>; an index out of range reads \<^verbatim>\<open>undefined\<close>, and the method call on it
  throws.
\<close>

definition emailDomain :: "(string \<Rightarrow> string) \<Rightarrow> jsval \<Rightarrow> error + string" where
  "emailDomain lower user_email =
     (case user_email of
        JStr s \<Rightarrow>
          (let parts = split s CHR ''@'' in
           if 1 < length parts then Inr (toLowerCase lower (parts ! 1)) else Inl TypeError)
      | _ \<Rightarrow> Inl TypeError)"

text \<open>Lines 40 to 43: \<^verbatim>\<open>isDisposable || isSuspiciousTLD\<close>.\<close>

definition isDisposable :: "string \<Rightarrow> bool" where
  "isDisposable d = (d \<in> set BLOCKED_DOMAINS)"

definition isSuspiciousTLD :: "string \<Rightarrow> bool" where
  "isSuspiciousTLD d = list_ex (\<lambda>tld. endsWith d tld) BLOCKED_TLDS"

text \<open>
  Line 27: \<^verbatim>\<open>honeypot && honeypot.length > 0\<close>. \<^verbatim>\<open>undefined\<close> and the empty string
  are falsy.
\<close>

definition honeypot_filled :: "string option \<Rightarrow> bool" where
  "honeypot_filled h = (case h of None \<Rightarrow> False | Some s \<Rightarrow> s \<noteq> [] \<and> 0 < length s)"

text \<open>The body of the \<^verbatim>\<open>try\<close> block, lines 26 to 93.\<close>

definition try_block ::
  "'s env \<Rightarrow> 's \<Rightarrow> string option \<Rightarrow> string option \<Rightarrow> formData option \<Rightarrow> jsval option
     \<Rightarrow> 's result" where
  "try_block env st token hp fd user_email =
     (if honeypot_filled hp
      then \<lparr>outcome = Responded 200 SuccessTrue, events = [Warn_honeypot], store = st\<rparr>
      else
        (case user_email of
           None \<Rightarrow>
             \<comment> \<open>line 34, \<^verbatim>\<open>!user_email\<close> with \<^verbatim>\<open>user_email\<close> undefined\<close>
             \<lparr>outcome = Responded 400 (ErrorBody ''Invalid email address.''),
               events = [], store = st\<rparr>
         | Some v \<Rightarrow>
             \<comment> \<open>line 34, \<^verbatim>\<open>!user_email || !user_email.includes('@')\<close>\<close>
             if \<not> truthy v
             then \<lparr>outcome = Responded 400 (ErrorBody ''Invalid email address.''),
                    events = [], store = st\<rparr>
             else
               (case includes_at v of
                  Inl err \<Rightarrow> \<lparr>outcome = Threw err, events = [], store = st\<rparr>
                | Inr found \<Rightarrow>
                    if \<not> found
                    then \<lparr>outcome = Responded 400 (ErrorBody ''Invalid email address.''),
                           events = [], store = st\<rparr>
                    else
                      (case emailDomain (unicode_lower env) v of
                         Inl err \<Rightarrow> \<lparr>outcome = Threw err, events = [], store = st\<rparr>
                       | Inr d \<Rightarrow>
                           if isDisposable d \<or> isSuspiciousTLD d
                           then \<lparr>outcome = Responded 400
                                    (ErrorBody ''Please use a professional email address.''),
                                  events = [], store = st\<rparr>
                           else captcha_step env st token fd v))))"

text \<open>Lines 95 to 98: the \<^verbatim>\<open>catch\<close> of the handler.\<close>

definition catch :: "'s result \<Rightarrow> 's result" where
  "catch r =
     (case outcome r of
        Threw err \<Rightarrow>
          r\<lparr>outcome := Responded 500 (ErrorBody ''Internal server error''),
            events := events r @ [Error_api err]\<rparr>
      | Responded n b \<Rightarrow> r)"

text \<open>
  Line 22: the destructuring of \<^verbatim>\<open>req.body\<close>. It throws on \<^verbatim>\<open>undefined\<close> and
  \<^verbatim>\<open>null\<close>; a primitive value is read as an object without the three fields.
\<close>

definition destructure :: "body \<Rightarrow> error + request_body" where
  "destructure b =
     (case b of
        BodyUndefined \<Rightarrow> Inl TypeError
      | BodyNull \<Rightarrow> Inl TypeError
      | BodyObject flds \<Rightarrow> Inr flds
      | _ \<Rightarrow> Inr \<lparr>captchaToken = None, honeypot = None, formData = None\<rparr>)"

text \<open>Line 23: \<^verbatim>\<open>formData?.user_email\<close>.\<close>

definition user_email_of :: "formData option \<Rightarrow> jsval option" where
  "user_email_of fd = (case fd of None \<Rightarrow> None | Some m \<Rightarrow> map_of m ''user_email'')"

definition handler :: "'s env \<Rightarrow> 's \<Rightarrow> request \<Rightarrow> 's result" where
  "handler env st req =
     (if req_method req \<noteq> ''POST''
      then \<lparr>outcome = Responded 405 (ErrorBody ''Method not allowed''),
             events = [], store = st\<rparr>
      else
        (case destructure (body req) of
           Inl err \<Rightarrow> \<lparr>outcome = Threw err, events = [], store = st\<rparr>
         | Inr flds \<Rightarrow>
             catch (try_block env st (captchaToken flds) (honeypot flds) (formData flds)
                      (user_email_of (formData flds)))))"

subsection \<open>The store, as the interface describes it\<close>

text \<open>
  Modelled from the spec: the persistent store is an external service; the repository
  holds only its client calls. The interface gives it a read capability ("fetch at most
  one record by exact \<^verbatim>\<open>user_email\<close> match, tolerating zero-results without error")
  and a write capability ("insert one record into a fixed collection, surfacing a
  distinguishable unique-constraint-violated error code separately from other write
  errors"), with \<^verbatim>\<open>user_email\<close> as the uniqueness key. The table is the list of its
  rows, oldest first. The insert of a value that is not a record is one of the other
  write errors; which code it carries plays no role.
\<close>

type_synonym table = "formData list"

definition row_email :: "formData \<Rightarrow> jsval option" where
  "row_email row = map_of row ''user_email''"

definition unique_violation :: store_error where
  "unique_violation =
     \<lparr>code = ''23505'',
       message = ''duplicate key value violates unique constraint'',
       details = ''Key (user_email) already exists.''\<rparr>"

definition other_write_error :: store_error where
  "other_write_error =
     \<lparr>code = ''22023'', message = ''cannot insert a value that is not a record'',
       details = []\<rparr>"

definition table_select :: "table \<Rightarrow> jsval \<Rightarrow> error + formData option" where
  "table_select rows e = Inr (find (\<lambda>row. row_email row = Some e) rows)"

definition table_insert ::
  "table \<Rightarrow> formData option \<Rightarrow> (error + store_error option) \<times> table" where
  "table_insert rows fd =
     (case fd of
        None \<Rightarrow> (Inr (Some other_write_error), rows)
      | Some r \<Rightarrow>
          if row_email r \<in> set (map row_email rows)
          then (Inr (Some unique_violation), rows)
          else (Inr None, rows @ [r]))"

definition table_env ::
  "(string \<Rightarrow> string) \<Rightarrow> string option \<Rightarrow> (string \<Rightarrow> error + captchaData) \<Rightarrow> table env" where
  "table_env lower secret verifier =
     \<lparr>unicode_lower = lower, RECAPTCHA_SECRET_KEY = secret, fetch_json = verifier,
       select_maybeSingle = table_select, insert_row = table_insert\<rparr>"

text \<open>The invariant of the data model: no two rows share their \<^verbatim>\<open>user_email\<close>.\<close>

definition unique_emails :: "table \<Rightarrow> bool" where
  "unique_emails rows = distinct (map row_email rows)"

subsection \<open>Vocabulary of the properties\<close>

text \<open>
  A request that reaches the CAPTCHA gate with the address \<open>e\<close>: the method is POST,
  the body is an object, the honeypot is absent or empty, \<^verbatim>\<open>formData.user_email\<close> is
  the string \<open>e\<close>, which contains \<^verbatim>\<open>'@'\<close>, and its domain is on neither block-list.
\<close>

definition valid_submission :: "'s env \<Rightarrow> request \<Rightarrow> request_body \<Rightarrow> string \<Rightarrow> bool" where
  "valid_submission env req b e =
     (req_method req = ''POST'' \<and> body req = BodyObject b
      \<and> (honeypot b = None \<or> honeypot b = Some [])
      \<and> user_email_of (formData b) = Some (JStr e) \<and> CHR ''@'' \<in> set e
      \<and> (case emailDomain (unicode_lower env) (JStr e) of
            Inl err \<Rightarrow> False
          | Inr d \<Rightarrow> \<not> isDisposable d \<and> \<not> isSuspiciousTLD d))"

text \<open>The verifier answers the request of body \<open>b\<close> with the verdict \<open>v\<close>.\<close>

definition verdict_for :: "'s env \<Rightarrow> request_body \<Rightarrow> captchaData \<Rightarrow> bool" where
  "verdict_for env b v =
     (fetch_json env (verifyUrl (RECAPTCHA_SECRET_KEY env) (captchaToken b)) = Inr v)"

text \<open>A verdict that the gate of line 57 lets through.\<close>

definition captcha_passed :: "'s env \<Rightarrow> request_body \<Rightarrow> bool" where
  "captcha_passed env b =
     (case fetch_json env (verifyUrl (RECAPTCHA_SECRET_KEY env) (captchaToken b)) of
        Inl err \<Rightarrow> False
      | Inr v \<Rightarrow> \<not> captcha_rejected v)"

text \<open>The status of a response; an escaped exception has none.\<close>

definition status :: "outcome \<Rightarrow> nat option" where
  "status out = (case out of Responded n b \<Rightarrow> Some n | Threw err \<Rightarrow> None)"

text \<open>
  The conflict message as the interface specification of the repository prints it, with
  the ASCII apostrophe (byte 27).
\<close>

definition interface_conflict_message :: string where
  "interface_conflict_message =
     ''We'' @ [CHR 0x27] @ ''ve already received a submission from this email address.''"

subsection \<open>Concrete requests and environments\<close>

definition verifier_always :: "captchaData \<Rightarrow> string \<Rightarrow> error + captchaData" where
  "verifier_always v url = Inr v"

definition good_verdict :: captchaData where
  "good_verdict = \<lparr>success = True, score = Some 0.9, action = Some ''submit''\<rparr>"

text \<open>
  A case mapping for the concrete runs: it knows the ASCII letters and the Kelvin sign
  U+212A (bytes E2 84 AA), which it maps to \<^verbatim>\<open>k\<close> as Unicode does.
\<close>

fun demo_lower :: "string \<Rightarrow> string" where
  "demo_lower (a # b # c # cs) =
     (if a = CHR 0xE2 \<and> b = CHR 0x84 \<and> c = CHR 0xAA then CHR ''k'' # demo_lower cs
      else lower_char a # demo_lower (b # c # cs))"
| "demo_lower (c # cs) = lower_char c # demo_lower cs"
| "demo_lower [] = []"

definition demo_env :: "table env" where
  "demo_env = table_env demo_lower (Some ''secret'') (verifier_always good_verdict)"

text \<open>A request body with the honeypot \<open>hp\<close> and the JSON value \<open>v\<close> as \<^verbatim>\<open>user_email\<close>.\<close>

definition submission_of :: "string \<Rightarrow> jsval \<Rightarrow> request_body" where
  "submission_of hp v =
     \<lparr>captchaToken = Some ''token'', honeypot = Some hp,
       formData = Some [(''name'', JStr ''Ada''), (''user_email'', v)]\<rparr>"

definition submission :: "string \<Rightarrow> string \<Rightarrow> request_body" where
  "submission hp email = submission_of hp (JStr email)"

definition post :: "body \<Rightarrow> request" where
  "post b = \<lparr>req_method = ''POST'', body = b\<rparr>"

text \<open>An environment whose store accepts every query and fails every insert with \<open>err\<close>.\<close>

definition failing_env :: "store_error \<Rightarrow> unit env" where
  "failing_env err =
     \<lparr>unicode_lower = demo_lower, RECAPTCHA_SECRET_KEY = Some ''secret'',
       fetch_json = verifier_always good_verdict,
       select_maybeSingle = (\<lambda>st e. Inr None),
       insert_row = (\<lambda>st fd. (Inr (Some err), st))\<rparr>"

definition verdict :: "bool \<Rightarrow> rat option \<Rightarrow> string \<Rightarrow> captchaData" where
  "verdict ok sc act = \<lparr>success = ok, score = sc, action = Some act\<rparr>"



section \<open>Properties\<close>

subsection \<open>Auxiliary facts\<close>



lemma split_from_first:
  "sep \<notin> set l \<Longrightarrow> split_from sep seg (l @ sep # r) = (rev seg @ l) # split_from sep [] r"
  by (induction l arbitrary: seg) auto

lemma split_from_hd:
  "hd (split_from sep seg r) = rev seg @ takeWhile (\<lambda>c. c \<noteq> sep) r"
  by (induction r arbitrary: seg) auto

lemma split_from_nonempty: "split_from sep seg r \<noteq> []"
  by (induction r arbitrary: seg) auto

lemma emailDomain_first:
  assumes "CHR ''@'' \<notin> set l"
  shows "emailDomain lower (JStr (l @ CHR ''@'' # r)) =
           Inr (toLowerCase lower (takeWhile (\<lambda>c. c \<noteq> CHR ''@'') r))"
proof -
  let ?rest = "split_from CHR ''@'' [] r"
  have parts: "split (l @ CHR ''@'' # r) CHR ''@'' = l # ?rest"
    using assms by (simp add: split_def split_from_first)
  have ne: "?rest \<noteq> []" by (rule split_from_nonempty)
  then have "(l # ?rest) ! 1 = hd ?rest"
    by (simp add: hd_conv_nth)
  moreover have "1 < length (l # ?rest)"
    using ne by (cases ?rest) auto
  ultimately show ?thesis
    by (simp add: emailDomain_def parts split_from_hd Let_def)
qed

text \<open>Line 39 does not throw once the address has passed line 34.\<close>

lemma emailDomain_defined:
  assumes "CHR ''@'' \<in> set e"
  shows "\<exists>d. emailDomain lower (JStr e) = Inr d"
proof -
  obtain l r where "e = l @ CHR ''@'' # r" and "CHR ''@'' \<notin> set l"
    using assms by (auto dest: split_list_first)
  then show ?thesis by (simp add: emailDomain_first)
qed

text \<open>How far a call gets: the input gates, the CAPTCHA gate, the store.\<close>

lemma handler_valid_submission:
  assumes "valid_submission env req b e"
  shows "handler env st req =
           catch (captcha_step env st (captchaToken b) (formData b) (JStr e))"
proof -
  from assms have ne: "e \<noteq> []" by (auto simp: valid_submission_def)
  from assms obtain d where d: "emailDomain (unicode_lower env) (JStr e) = Inr d"
      "\<not> isDisposable d" "\<not> isSuspiciousTLD d"
    unfolding valid_submission_def by (auto split: sum.splits)
  from assms have hp: "\<not> honeypot_filled (honeypot b)"
    by (auto simp: valid_submission_def honeypot_filled_def)
  from assms have req: "req_method req = ''POST''" "body req = BodyObject b"
      "user_email_of (formData b) = Some (JStr e)" "CHR ''@'' \<in> set e"
    by (simp_all add: valid_submission_def)
  show ?thesis
    unfolding handler_def try_block_def
    by (simp add: req destructure_def hp ne includes_str_def d)
qed

lemma captcha_step_passed:
  assumes "captcha_passed env b"
  shows "captcha_step env st (captchaToken b) fd e =
           emit [Fetch (verifyUrl (RECAPTCHA_SECRET_KEY env) (captchaToken b))]
             (uniqueness_step env st fd e)"
  using assms by (auto simp: captcha_passed_def captcha_step_def Let_def split: sum.splits)


lemma handler_captcha_rejected:
  assumes "valid_submission env req b e" and "verdict_for env b v" and "captcha_rejected v"
  shows "handler env st req =
      \<lparr>outcome = Responded 403 (ErrorBody ''Security verification failed. Please try again.''),
        events = [Fetch (verifyUrl (RECAPTCHA_SECRET_KEY env) (captchaToken b)),
                  Warn_captcha (score v) (action v)],
        store = st\<rparr>"
  using assms(2,3)
  by (simp add: handler_valid_submission [OF assms(1)] verdict_for_def captcha_step_def
      Let_def catch_def)

lemma handler_captcha_accepted:
  assumes "valid_submission env req b e" and "verdict_for env b v" and "\<not> captcha_rejected v"
  shows "handler env st req =
      catch (emit [Fetch (verifyUrl (RECAPTCHA_SECRET_KEY env) (captchaToken b))]
        (uniqueness_step env st (formData b) (JStr e)))"
  using assms(2,3)
  by (simp add: handler_valid_submission [OF assms(1)] verdict_for_def captcha_step_def Let_def)

lemma handler_captcha_passed:
  assumes "valid_submission env req b e" and "captcha_passed env b"
  shows "handler env st req =
      catch (emit [Fetch (verifyUrl (RECAPTCHA_SECRET_KEY env) (captchaToken b))]
        (uniqueness_step env st (formData b) (JStr e)))"
  by (simp add: handler_valid_submission [OF assms(1)] captcha_step_passed [OF assms(2)])

lemma uniqueness_step_not_403:
  "outcome (catch (emit evs (uniqueness_step env st fd e))) \<noteq> Responded 403 b"
  by (auto simp: uniqueness_step_def insert_step_def catch_def emit_def
      split: sum.splits option.splits prod.splits if_splits)

lemma uniqueness_step_selects:
  "Select_user_email e \<in> set (events (catch (emit evs (uniqueness_step env st fd e))))"
  by (auto simp: uniqueness_step_def insert_step_def catch_def emit_def
      split: sum.splits option.splits prod.splits if_splits)

text \<open>The store of the interface: what a query finds, and the invariant over a call.\<close>

lemma table_select_None:
  "Some e \<notin> set (map row_email rows) \<Longrightarrow> table_select rows e = Inr None"
  by (force simp: table_select_def find_None_iff)

lemma table_select_Some:
  "Some e \<in> set (map row_email rows) \<Longrightarrow> \<exists>row. table_select rows e = Inr (Some row)"
  by (cases "find (\<lambda>row. row_email row = Some e) rows")
     (auto simp: table_select_def find_None_iff)

lemma handler_keeps_unique_emails:
  assumes "unique_emails rows"
  shows "unique_emails (store (handler (table_env lower k v) rows req))"
  using assms
  by (auto simp: handler_def try_block_def captcha_step_def uniqueness_step_def insert_step_def
        catch_def emit_def Let_def table_env_def table_insert_def unique_emails_def
      split: sum.splits option.splits prod.splits if_splits)

text \<open>Unfolding sets for the evaluation of concrete calls.\<close>

lemmas run_defs =
  handler_def destructure_def try_block_def honeypot_filled_def includes_str_def
  captcha_step_def uniqueness_step_def insert_step_def catch_def emit_def Let_def
  user_email_of_def emailDomain_def split_def toLowerCase_def is_ascii_def lower_char_def
  isDisposable_def isSuspiciousTLD_def BLOCKED_DOMAINS_def BLOCKED_TLDS_def endsWith_def
  verifyUrl_def interpolate_def captcha_rejected_def

lemmas demo_defs =
  post_def submission_def submission_of_def demo_env_def table_env_def verifier_always_def good_verdict_def
  table_select_def table_insert_def row_email_def unique_violation_def other_write_error_def

subsection \<open>Properties of the handler\<close>

text \<open>
  C1. A POST request whose honeypot field is a non-empty string is answered with status
  200 and \<^verbatim>\<open>{success: true}\<close>, whatever the other fields, the verifier and the store
  are. The only event of the call is the warning in the log: the verifier is not called,
  the uniqueness query and the insert are not executed, and the store is left as it was.
\<close>

theorem honeypot_silent_success:
  assumes "req_method req = ''POST''" and "body req = BodyObject b"
    and "honeypot b = Some h" and "h \<noteq> []"
  shows "handler env st req =
           \<lparr>outcome = Responded 200 SuccessTrue, events = [Warn_honeypot], store = st\<rparr>"
  using assms
  by (simp add: handler_def destructure_def try_block_def honeypot_filled_def catch_def)

theorem honeypot_silent_success_witness:
  "req_method (post (BodyObject (submission ''x'' ''not an email''))) = ''POST''
   \<and> honeypot (submission ''x'' ''not an email'') = Some ''x''
   \<and> handler demo_env [] (post (BodyObject (submission ''x'' ''not an email''))) =
       \<lparr>outcome = Responded 200 SuccessTrue, events = [Warn_honeypot], store = []\<rparr>"
proof -
  let ?b = "submission ''x'' ''not an email''"
  have m: "req_method (post (BodyObject ?b)) = ''POST''" and o: "body (post (BodyObject ?b)) = BodyObject ?b"
    by (simp_all add: post_def)
  have h: "honeypot ?b = Some ''x''" by (simp add: submission_def submission_of_def)
  have n: "''x'' \<noteq> []" by simp
  from honeypot_silent_success [where env = demo_env and st = "[]", OF m o h n] m h
  show ?thesis by simp
qed

text \<open>
  C2, as stated, fails: a verdict with \<^verbatim>\<open>success\<close> true and action \<^verbatim>\<open>"submit"\<close> that
  carries no score has no score of at least 0.5, and the gate lets it through (the
  request goes on to the insert and is answered 200).
\<close>

theorem scoreless_verdict_counterexample:
  "score (verdict True None ''submit'') = None
   \<and> outcome (handler (table_env demo_lower None (verifier_always (verdict True None ''submit'')))
        [] (post (BodyObject (submission [] ''ada@example.org''))))
     = Responded 200 SuccessTrue"
  by (simp add: run_defs demo_defs verdict_def)

text \<open>
  C2, amended. For a request that reaches the CAPTCHA gate, the handler answers 403 with
  the security-verification message exactly when the verdict violates one of:
  \<^verbatim>\<open>success\<close> is true, the score is not below 0.5 (it is at least 0.5, or the verdict
  carries no score), the action is \<^verbatim>\<open>"submit"\<close>. Exactly when all three hold the request
  is accepted by the gate and the handler goes on to the uniqueness query. The instances
  that follow the theorem are the verdicts of the claim: score 0.5 passes, score 0.499
  fails, action \<^verbatim>\<open>"other"\<close> fails with success and score 1.0.
\<close>

theorem captcha_gate:
  assumes "valid_submission env req b e" and "verdict_for env b v"
  shows "(outcome (handler env st req) =
            Responded 403 (ErrorBody ''Security verification failed. Please try again.''))
           = (\<not> (success v \<and> (case score v of None \<Rightarrow> True | Some s \<Rightarrow> 0.5 \<le> s)
                 \<and> action v = Some ''submit''))
         \<and> (Select_user_email (JStr e) \<in> set (events (handler env st req)))
           = (success v \<and> (case score v of None \<Rightarrow> True | Some s \<Rightarrow> 0.5 \<le> s)
                \<and> action v = Some ''submit'')"
proof -
  have gate: "captcha_rejected v =
      (\<not> (success v \<and> (case score v of None \<Rightarrow> True | Some s \<Rightarrow> 0.5 \<le> s)
           \<and> action v = Some ''submit''))"
    by (auto simp: captcha_rejected_def split: option.splits)
  show ?thesis
  proof (cases "captcha_rejected v")
    case True
    from handler_captcha_rejected [OF assms(1,2) True, of st] True gate
    show ?thesis by simp
  next
    case False
    from handler_captcha_accepted [OF assms(1,2) False, of st] False gate
    show ?thesis by (simp add: uniqueness_step_not_403 uniqueness_step_selects)
  qed
qed

theorem captcha_gate_witness:
  "outcome (handler (table_env demo_lower None (verifier_always (verdict True (Some 0.5) ''submit''))) []
      (post (BodyObject (submission [] ''ada@example.org''))))
     \<noteq> Responded 403 (ErrorBody ''Security verification failed. Please try again.'')
   \<and> outcome (handler (table_env demo_lower None (verifier_always (verdict True (Some 0.499) ''submit''))) []
      (post (BodyObject (submission [] ''ada@example.org''))))
     = Responded 403 (ErrorBody ''Security verification failed. Please try again.'')
   \<and> outcome (handler (table_env demo_lower None (verifier_always (verdict True (Some 1.0) ''other''))) []
      (post (BodyObject (submission [] ''ada@example.org''))))
     = Responded 403 (ErrorBody ''Security verification failed. Please try again.'')
   \<and> outcome (handler (table_env demo_lower None (verifier_always (verdict False (Some 1.0) ''submit''))) []
      (post (BodyObject (submission [] ''ada@example.org''))))
     = Responded 403 (ErrorBody ''Security verification failed. Please try again.'')
   \<and> outcome (handler (table_env demo_lower None (verifier_always (verdict True None ''submit''))) []
      (post (BodyObject (submission [] ''ada@example.org''))))
     \<noteq> Responded 403 (ErrorBody ''Security verification failed. Please try again.'')"
proof -
  let ?b = "submission [] ''ada@example.org''"
  let ?req = "post (BodyObject ?b)"
  let ?env = "\<lambda>v. table_env demo_lower None (verifier_always v)"
  have ok: "valid_submission (?env v) ?req ?b ''ada@example.org''" for v
    by (simp add: valid_submission_def run_defs demo_defs)
  have v: "verdict_for (?env v) ?b v" for v
    by (simp add: verdict_for_def table_env_def verifier_always_def)
  have s: "score (verdict a sc c) = sc" "success (verdict a sc c) = a"
    "action (verdict a sc c) = Some c" for a sc c
    by (simp_all add: verdict_def)
  from captcha_gate [where st = "[]", OF ok v, of "verdict True (Some 0.5) ''submit''"]
       captcha_gate [where st = "[]", OF ok v, of "verdict True (Some 0.499) ''submit''"]
       captcha_gate [where st = "[]", OF ok v, of "verdict True (Some 1.0) ''other''"]
       captcha_gate [where st = "[]", OF ok v, of "verdict False (Some 1.0) ''submit''"]
       captcha_gate [where st = "[]", OF ok v, of "verdict True None ''submit''"]
  show ?thesis by (simp add: s)
qed

text \<open>
  C3. When the insert reports the uniqueness violation (error code 23505), the handler
  answers 409 with the message of line 85; when the soft check finds a record, it answers
  409 with the message of line 72; and the two messages are the same string, byte for
  byte. The two responses are equal: a caller cannot tell the lost race from the
  duplicate.
\<close>

theorem race_conflict_same_message:
  assumes "valid_submission env req b e" and "captcha_passed env b"
    and "select_maybeSingle env st (JStr e) = Inr None"
    and "insert_row env st (formData b) = (Inr (Some err), st')"
    and "code err = ''23505''"
    and "valid_submission env2 req2 b2 e2" and "captcha_passed env2 b2"
    and "select_maybeSingle env2 st2 (JStr e2) = Inr (Some row)"
  shows "outcome (handler env st req) = Responded 409 (ErrorBody unique_violation_message)
       \<and> outcome (handler env2 st2 req2) = Responded 409 (ErrorBody soft_check_message)
       \<and> unique_violation_message = soft_check_message"
proof -
  have "outcome (handler env st req) = Responded 409 (ErrorBody unique_violation_message)"
    using assms(3-5)
    by (simp add: handler_captcha_passed [OF assms(1,2)] uniqueness_step_def insert_step_def
        emit_def catch_def)
  moreover have "outcome (handler env2 st2 req2) = Responded 409 (ErrorBody soft_check_message)"
    using assms(8)
    by (simp add: handler_captcha_passed [OF assms(6,7)] uniqueness_step_def emit_def catch_def)
  moreover have "unique_violation_message = soft_check_message"
    by (simp add: unique_violation_message_def soft_check_message_def)
  ultimately show ?thesis by simp
qed

theorem race_conflict_same_message_witness:
  "outcome (handler (failing_env unique_violation) ()
       (post (BodyObject (submission [] ''ada@example.org''))))
     = outcome (handler demo_env [[(''user_email'', JStr ''ada@example.org'')]]
         (post (BodyObject (submission [] ''ada@example.org''))))
   \<and> status (outcome (handler (failing_env unique_violation) ()
         (post (BodyObject (submission [] ''ada@example.org''))))) = Some 409"
proof -
  let ?b = "submission [] ''ada@example.org''"
  let ?req = "post (BodyObject ?b)"
  let ?row = "[(''user_email'', JStr ''ada@example.org'')]"
  have ok1: "valid_submission (failing_env unique_violation) ?req ?b ''ada@example.org''"
    by (simp add: valid_submission_def failing_env_def run_defs demo_defs)
  have ok2: "valid_submission demo_env ?req ?b ''ada@example.org''"
    by (simp add: valid_submission_def run_defs demo_defs)
  have c1: "captcha_passed (failing_env unique_violation) ?b"
    by (simp add: captcha_passed_def failing_env_def run_defs demo_defs)
  have s1: "select_maybeSingle (failing_env unique_violation) () (JStr ''ada@example.org'')
      = Inr None"
    by (simp add: failing_env_def)
  have i1: "insert_row (failing_env unique_violation) () (formData ?b)
      = (Inr (Some unique_violation), ())"
    by (simp add: failing_env_def)
  have k1: "code unique_violation = ''23505''"
    by (simp add: unique_violation_def)
  have c2: "captcha_passed demo_env ?b"
    by (simp add: captcha_passed_def run_defs demo_defs)
  have s2: "select_maybeSingle demo_env [?row] (JStr ''ada@example.org'') = Inr (Some ?row)"
    by (simp add: demo_defs)
  from race_conflict_same_message [OF ok1 c1 s1 i1 k1 ok2 c2 s2]
  show ?thesis by (simp add: status_def)
qed

text \<open>
  C4. Against the store of the interface, with rows of pairwise different
  \<^verbatim>\<open>user_email\<close> none of which is \<open>e\<close>: two valid requests with the address \<open>e\<close>, both
  passing the CAPTCHA, handled one after the other, are answered 200 and then 409, and
  after each of them no two rows of the store share their \<^verbatim>\<open>user_email\<close>.
\<close>

theorem sequential_duplicate:
  assumes "valid_submission (table_env l1 k1 v1) req1 b1 e"
    and "valid_submission (table_env l2 k2 v2) req2 b2 e"
    and "captcha_passed (table_env l1 k1 v1) b1" and "captcha_passed (table_env l2 k2 v2) b2"
    and "unique_emails rows" and "Some (JStr e) \<notin> set (map row_email rows)"
  shows "outcome (handler (table_env l1 k1 v1) rows req1) = Responded 200 SuccessTrue
       \<and> status (outcome (handler (table_env l2 k2 v2)
             (store (handler (table_env l1 k1 v1) rows req1)) req2)) = Some 409
       \<and> unique_emails (store (handler (table_env l1 k1 v1) rows req1))
       \<and> unique_emails (store (handler (table_env l2 k2 v2)
             (store (handler (table_env l1 k1 v1) rows req1)) req2))"
proof -
  let ?E1 = "table_env l1 k1 v1" and ?E2 = "table_env l2 k2 v2"
  from assms(1) obtain fd1 where fd1: "formData b1 = Some fd1" "row_email fd1 = Some (JStr e)"
    by (auto simp: valid_submission_def user_email_of_def row_email_def split: option.splits)
  have sel1: "select_maybeSingle ?E1 rows (JStr e) = Inr None"
    using assms(6) by (simp add: table_env_def table_select_None)
  have ins1: "insert_row ?E1 rows (formData b1) = (Inr None, rows @ [fd1])"
    using assms(6) fd1 by (simp add: table_env_def table_insert_def)
  have first: "handler ?E1 rows req1 =
      \<lparr>outcome = Responded 200 SuccessTrue,
        events = [Fetch (verifyUrl (RECAPTCHA_SECRET_KEY ?E1) (captchaToken b1)),
                  Select_user_email (JStr e), Insert (formData b1)],
        store = rows @ [fd1]\<rparr>"
    using sel1 ins1
    by (simp add: handler_captcha_passed [OF assms(1,3)] uniqueness_step_def insert_step_def
        emit_def catch_def)
  have "Some (JStr e) \<in> set (map row_email (rows @ [fd1]))"
    using fd1 by simp
  then obtain row where "table_select (rows @ [fd1]) (JStr e) = Inr (Some row)"
    using table_select_Some by blast
  then have sel2: "select_maybeSingle ?E2 (rows @ [fd1]) (JStr e) = Inr (Some row)"
    by (simp add: table_env_def)
  have second: "handler ?E2 (rows @ [fd1]) req2 =
      \<lparr>outcome = Responded 409 (ErrorBody soft_check_message),
        events = [Fetch (verifyUrl (RECAPTCHA_SECRET_KEY ?E2) (captchaToken b2)),
                  Select_user_email (JStr e)],
        store = rows @ [fd1]\<rparr>"
    using sel2
    by (simp add: handler_captcha_passed [OF assms(2,4)] uniqueness_step_def emit_def catch_def)
  have inv: "unique_emails (rows @ [fd1])"
    using assms(5,6) fd1 by (simp add: unique_emails_def)
  show ?thesis
    using inv by (simp add: first second status_def)
qed

theorem sequential_duplicate_witness:
  "outcome (handler demo_env [] (post (BodyObject (submission [] ''ada@example.org''))))
     = Responded 200 SuccessTrue
   \<and> status (outcome (handler demo_env
        (store (handler demo_env [] (post (BodyObject (submission [] ''ada@example.org'')))))
        (post (BodyObject (submission [] ''ada@example.org''))))) = Some 409
   \<and> unique_emails (store (handler demo_env
        (store (handler demo_env [] (post (BodyObject (submission [] ''ada@example.org'')))))
        (post (BodyObject (submission [] ''ada@example.org'')))))"
proof -
  let ?b = "submission [] ''ada@example.org''"
  let ?E = "table_env demo_lower (Some ''secret'') (verifier_always good_verdict)"
  have ok: "valid_submission ?E (post (BodyObject ?b)) ?b ''ada@example.org''"
    by (simp add: valid_submission_def run_defs demo_defs)
  have c: "captcha_passed ?E ?b"
    by (simp add: captcha_passed_def run_defs demo_defs)
  have u: "unique_emails []" by (simp add: unique_emails_def)
  have f: "Some (JStr ''ada@example.org'') \<notin> set (map row_email [])" by simp
  from sequential_duplicate [OF ok ok c c u f] show ?thesis
    by (simp add: demo_env_def)
qed




text \<open>
  C6. When the insert fails with an error whose code is not 23505, the handler answers 500
  with the body \<^verbatim>\<open>{error: "Internal server error"}\<close>, the same for every such error: the
  error object goes to the log and nowhere else.
\<close>

theorem insert_failure_generic_500:
  assumes "valid_submission env req b e" and "captcha_passed env b"
    and "select_maybeSingle env st (JStr e) = Inr None"
    and "insert_row env st (formData b) = (Inr (Some err), st')"
    and "code err \<noteq> ''23505''"
  shows "handler env st req =
           \<lparr>outcome = Responded 500 (ErrorBody ''Internal server error''),
             events = [Fetch (verifyUrl (RECAPTCHA_SECRET_KEY env) (captchaToken b)),
                       Select_user_email (JStr e), Insert (formData b), Error_insert err,
                       Error_api (Error ''Database error'')],
             store = st'\<rparr>"
  using assms(3-5)
  by (simp add: handler_captcha_passed [OF assms(1,2)] uniqueness_step_def insert_step_def
      emit_def catch_def)

theorem insert_failure_generic_500_witness:
  "outcome (handler
      (failing_env \<lparr>code = ''57014'', message = ''canceling statement due to statement timeout'',
                     details = ''diagnostic_submissions''\<rparr>) ()
      (post (BodyObject (submission [] ''ada@example.org''))))
     = Responded 500 (ErrorBody ''Internal server error'')"
proof -
  let ?b = "submission [] ''ada@example.org''"
  let ?err = "\<lparr>code = ''57014'', message = ''canceling statement due to statement timeout'',
                details = ''diagnostic_submissions''\<rparr>"
  have ok: "valid_submission (failing_env ?err) (post (BodyObject ?b)) ?b ''ada@example.org''"
    by (simp add: valid_submission_def failing_env_def run_defs demo_defs)
  have c: "captcha_passed (failing_env ?err) ?b"
    by (simp add: captcha_passed_def failing_env_def run_defs demo_defs)
  have s: "select_maybeSingle (failing_env ?err) () (JStr ''ada@example.org'') = Inr None"
    by (simp add: failing_env_def)
  have i: "insert_row (failing_env ?err) () (formData ?b) = (Inr (Some ?err), ())"
    by (simp add: failing_env_def)
  have k: "code ?err \<noteq> ''23505''" by simp
  from insert_failure_generic_500 [OF ok c s i k] show ?thesis by simp
qed

text \<open>
  C7, as stated, fails: a \<^verbatim>\<open>user_email\<close> without \<^verbatim>\<open>'@'\<close> need not be a string. The
  number 12345 is truthy and has no method \<^verbatim>\<open>includes\<close>: line 34 throws inside the
  \<^verbatim>\<open>try\<close> block and the handler answers with the 500 of its \<^verbatim>\<open>catch\<close>, not with 400.
\<close>

theorem numeric_email_counterexample:
  "handler demo_env [] (post (BodyObject (submission_of [] (JNum 12345)))) =
     \<lparr>outcome = Responded 500 (ErrorBody ''Internal server error''),
       events = [Error_api TypeError], store = []\<rparr>"
  by (simp add: run_defs demo_defs)

text \<open>
  C7, amended. A POST request with an absent or empty honeypot whose
  \<^verbatim>\<open>formData.user_email\<close> is absent or falsy (\<^verbatim>\<open>null\<close>, \<^verbatim>\<open>false\<close>, zero, the empty
  string), or is a string without the character \<^verbatim>\<open>'@'\<close>, or an array without the
  element \<^verbatim>\<open>'@'\<close>, is answered with status 400 and the message
  "Invalid email address."; the call makes no event at all (no CAPTCHA call, no store
  operation) and leaves the store as it was.
\<close>

theorem invalid_email_rejected:
  assumes "req_method req = ''POST''" and "body req = BodyObject b"
    and "honeypot b = None \<or> honeypot b = Some []"
    and "user_email_of (formData b) = None
         \<or> (\<exists>v. user_email_of (formData b) = Some v \<and> \<not> truthy v)
         \<or> (\<exists>e. user_email_of (formData b) = Some (JStr e) \<and> CHR ''@'' \<notin> set e)
         \<or> (\<exists>xs. user_email_of (formData b) = Some (JArr xs) \<and> JStr ''@'' \<notin> set xs)"
  shows "handler env st req =
           \<lparr>outcome = Responded 400 (ErrorBody ''Invalid email address.''),
             events = [], store = st\<rparr>"
proof -
  have hp: "\<not> honeypot_filled (honeypot b)"
    using assms(3) by (auto simp: honeypot_filled_def)
  have "try_block env st (captchaToken b) (honeypot b) (formData b)
          (user_email_of (formData b)) =
        \<lparr>outcome = Responded 400 (ErrorBody ''Invalid email address.''),
          events = [], store = st\<rparr>"
    using assms(4) hp by (auto simp: try_block_def includes_str_def)
  then show ?thesis
    using assms(1,2) by (simp add: handler_def destructure_def catch_def)
qed

theorem invalid_email_rejected_witness:
  "handler demo_env [] (post (BodyObject (submission [] ''ada.example.org''))) =
     \<lparr>outcome = Responded 400 (ErrorBody ''Invalid email address.''), events = [], store = []\<rparr>
   \<and> handler demo_env []
       (post (BodyObject
          \<lparr>captchaToken = None, honeypot = None, formData = Some [(''name'', JStr ''Ada'')]\<rparr>)) =
     \<lparr>outcome = Responded 400 (ErrorBody ''Invalid email address.''), events = [], store = []\<rparr>
   \<and> handler demo_env [] (post (BodyObject (submission_of [] JNull))) =
     \<lparr>outcome = Responded 400 (ErrorBody ''Invalid email address.''), events = [], store = []\<rparr>
   \<and> handler demo_env [] (post (BodyObject (submission_of [] (JArr [JStr ''ada''])))) =
     \<lparr>outcome = Responded 400 (ErrorBody ''Invalid email address.''), events = [], store = []\<rparr>"
proof -
  let ?b2 = "\<lparr>captchaToken = None, honeypot = None, formData = Some [(''name'', JStr ''Ada'')]\<rparr>"
  have m: "req_method (post (BodyObject b)) = ''POST''"
    and o: "body (post (BodyObject b)) = BodyObject b" for b
    by (simp_all add: post_def)
  have h: "honeypot (submission_of [] v) = None \<or> honeypot (submission_of [] v) = Some []"
    for v by (simp add: submission_of_def)
  have h2: "honeypot ?b2 = None \<or> honeypot ?b2 = Some []" by simp
  have u: "user_email_of (formData (submission_of [] v)) = Some v" for v
    by (simp add: submission_of_def user_email_of_def)
  have e1: "user_email_of (formData (submission_of [] (JStr ''ada.example.org''))) = None
      \<or> (\<exists>v. user_email_of (formData (submission_of [] (JStr ''ada.example.org''))) = Some v
              \<and> \<not> truthy v)
      \<or> (\<exists>e. user_email_of (formData (submission_of [] (JStr ''ada.example.org'')))
              = Some (JStr e) \<and> CHR ''@'' \<notin> set e)
      \<or> (\<exists>xs. user_email_of (formData (submission_of [] (JStr ''ada.example.org'')))
              = Some (JArr xs) \<and> JStr ''@'' \<notin> set xs)"
    by (simp add: u)
  have e2: "user_email_of (formData ?b2) = None
      \<or> (\<exists>v. user_email_of (formData ?b2) = Some v \<and> \<not> truthy v)
      \<or> (\<exists>e. user_email_of (formData ?b2) = Some (JStr e) \<and> CHR ''@'' \<notin> set e)
      \<or> (\<exists>xs. user_email_of (formData ?b2) = Some (JArr xs) \<and> JStr ''@'' \<notin> set xs)"
    by (simp add: user_email_of_def)
  have e3: "user_email_of (formData (submission_of [] JNull)) = None
      \<or> (\<exists>v. user_email_of (formData (submission_of [] JNull)) = Some v \<and> \<not> truthy v)
      \<or> (\<exists>e. user_email_of (formData (submission_of [] JNull)) = Some (JStr e)
              \<and> CHR ''@'' \<notin> set e)
      \<or> (\<exists>xs. user_email_of (formData (submission_of [] JNull)) = Some (JArr xs)
              \<and> JStr ''@'' \<notin> set xs)"
    by (simp add: u)
  have e4: "user_email_of (formData (submission_of [] (JArr [JStr ''ada'']))) = None
      \<or> (\<exists>v. user_email_of (formData (submission_of [] (JArr [JStr ''ada'']))) = Some v
              \<and> \<not> truthy v)
      \<or> (\<exists>e. user_email_of (formData (submission_of [] (JArr [JStr ''ada''])))
              = Some (JStr e) \<and> CHR ''@'' \<notin> set e)
      \<or> (\<exists>xs. user_email_of (formData (submission_of [] (JArr [JStr ''ada''])))
              = Some (JArr xs) \<and> JStr ''@'' \<notin> set xs)"
    by (simp add: u)
  from invalid_email_rejected [where env = demo_env and st = "[]", OF m o h e1]
       invalid_email_rejected [where env = demo_env and st = "[]", OF m o h2 e2]
       invalid_email_rejected [where env = demo_env and st = "[]", OF m o h e3]
       invalid_email_rejected [where env = demo_env and st = "[]", OF m o h e4]
  show ?thesis by (simp add: submission_def)
qed

text \<open>
  C8, as stated, fails: the interface specification prints the conflict message with the
  ASCII apostrophe, and the 409 of the handler does not carry that string.
\<close>

theorem conflict_message_counterexample:
  "status (outcome (handler demo_env [[(''user_email'', JStr ''ada@example.org'')]]
      (post (BodyObject (submission [] ''ada@example.org''))))) = Some 409
   \<and> outcome (handler demo_env [[(''user_email'', JStr ''ada@example.org'')]]
      (post (BodyObject (submission [] ''ada@example.org''))))
     \<noteq> Responded 409 (ErrorBody interface_conflict_message)"
  by (simp add: run_defs demo_defs status_def interface_conflict_message_def
      soft_check_message_def)

text \<open>
  C8, amended. Every 409 response of the handler, from the soft check or from the insert,
  has the error string "We\<dots>ve already received a submission from this email address."
  where the character after "We" is the typographic apostrophe U+2019 (bytes E2 80 99).
\<close>

theorem conflict_message_typographic:
  assumes "outcome (handler env st req) = Responded 409 b"
  shows "b = ErrorBody (''We'' @ [CHR 0xE2, CHR 0x80, CHR 0x99]
                @ ''ve already received a submission from this email address.'')"
  using assms
  by (auto simp: handler_def try_block_def captcha_step_def uniqueness_step_def insert_step_def
        catch_def emit_def Let_def unique_violation_message_def soft_check_message_def
      split: sum.splits option.splits prod.splits if_splits)

theorem conflict_message_typographic_witness:
  "outcome (handler (failing_env unique_violation) ()
      (post (BodyObject (submission [] ''ada@example.org''))))
   = Responded 409 (ErrorBody (''We'' @ [CHR 0xE2, CHR 0x80, CHR 0x99]
                @ ''ve already received a submission from this email address.''))"
proof -
  have run: "outcome (handler (failing_env unique_violation) ()
      (post (BodyObject (submission [] ''ada@example.org''))))
     = Responded 409 (ErrorBody unique_violation_message)"
    by (simp add: run_defs demo_defs failing_env_def)
  from conflict_message_typographic [OF run] run show ?thesis by simp
qed

text \<open>
  C9. A verdict with \<^verbatim>\<open>success\<close> true and action \<^verbatim>\<open>"submit"\<close> but no score is not
  rejected at the CAPTCHA gate: the comparison of line 57 is false on a missing score, the
  response is not a 403, and the handler goes on to the uniqueness query.
\<close>

theorem missing_score_passes:
  assumes "valid_submission env req b e" and "verdict_for env b v"
    and "success v" and "action v = Some ''submit''" and "score v = None"
  shows "\<not> captcha_rejected v
       \<and> status (outcome (handler env st req)) \<noteq> Some 403
       \<and> Select_user_email (JStr e) \<in> set (events (handler env st req))"
proof -
  have pass: "\<not> captcha_rejected v"
    using assms(3-5) by (simp add: captcha_rejected_def)
  have "outcome (handler env st req) \<noteq> Responded 403 body" for body
    by (simp add: handler_captcha_accepted [OF assms(1,2) pass] uniqueness_step_not_403)
  then have "status (outcome (handler env st req)) \<noteq> Some 403"
    by (auto simp: status_def split: outcome.splits)
  with pass show ?thesis
    by (simp add: handler_captcha_accepted [OF assms(1,2) pass] uniqueness_step_selects)
qed

theorem missing_score_passes_witness:
  "status (outcome (handler
       (table_env demo_lower None (verifier_always (verdict True None ''submit''))) []
       (post (BodyObject (submission [] ''ada@example.org''))))) \<noteq> Some 403
   \<and> Select_user_email (JStr ''ada@example.org'') \<in> set (events
       (handler (table_env demo_lower None (verifier_always (verdict True None ''submit''))) []
         (post (BodyObject (submission [] ''ada@example.org'')))))"
proof -
  let ?b = "submission [] ''ada@example.org''"
  let ?v = "verdict True None ''submit''"
  let ?E = "table_env demo_lower None (verifier_always ?v)"
  have ok: "valid_submission ?E (post (BodyObject ?b)) ?b ''ada@example.org''"
    by (simp add: valid_submission_def run_defs demo_defs)
  have v: "verdict_for ?E ?b ?v"
    by (simp add: verdict_for_def table_env_def verifier_always_def)
  have s: "success ?v" "action ?v = Some ''submit''" "score ?v = None"
    by (simp_all add: verdict_def)
  from missing_score_passes [where st = "[]", OF ok v s] show ?thesis by simp
qed

text \<open>
  C10, as stated, fails: a body that is not an object need not make the destructuring
  throw. A string body is destructured into three undefined fields, and the handler
  answers it with the 400 of the email check, one of the seven responses.
\<close>

theorem string_body_counterexample:
  "outcome (handler demo_env [] (post (BodyString ''hello''))) =
     Responded 400 (ErrorBody ''Invalid email address.'')
   \<and> outcome (handler demo_env [] (post (BodyString ''hello''))) \<noteq> Threw TypeError"
  by (simp add: post_def handler_def destructure_def try_block_def honeypot_filled_def
      catch_def user_email_of_def)

text \<open>
  C10, amended. For a POST request whose body is \<^verbatim>\<open>undefined\<close> or \<^verbatim>\<open>null\<close> the
  destructuring of line 22 throws before the \<^verbatim>\<open>try\<close> block: the exception escapes the
  handler, which sends no response (not the 500 of its own \<^verbatim>\<open>catch\<close> either) and makes
  no event. For a body that is a string, a number or a boolean the destructuring succeeds
  with the three fields undefined, and the handler answers 400 "Invalid email address.".
\<close>

theorem body_destructuring:
  assumes "req_method req = ''POST''"
  shows "(body req = BodyUndefined \<or> body req = BodyNull \<longrightarrow>
            handler env st req = \<lparr>outcome = Threw TypeError, events = [], store = st\<rparr>)
       \<and> (body req = BodyString s \<or> body req = BodyNumber n \<or> body req = BodyBoolean t \<longrightarrow>
            handler env st req =
              \<lparr>outcome = Responded 400 (ErrorBody ''Invalid email address.''),
                events = [], store = st\<rparr>)"
  using assms
  by (auto simp: handler_def destructure_def try_block_def honeypot_filled_def catch_def
        user_email_of_def)

theorem body_destructuring_witness:
  "handler demo_env [] (post BodyUndefined) = \<lparr>outcome = Threw TypeError, events = [], store = []\<rparr>
   \<and> handler demo_env [] (post BodyNull) = \<lparr>outcome = Threw TypeError, events = [], store = []\<rparr>
   \<and> handler demo_env [] (post (BodyNumber 7)) =
       \<lparr>outcome = Responded 400 (ErrorBody ''Invalid email address.''), events = [], store = []\<rparr>"
proof -
  have m: "req_method (post b) = ''POST''" for b by (simp add: post_def)
  from body_destructuring [where req = "post BodyUndefined" and env = demo_env and st = "[]", OF m]
       body_destructuring [where req = "post BodyNull" and env = demo_env and st = "[]", OF m]
       body_destructuring [where req = "post (BodyNumber 7)" and n = 7 and env = demo_env
         and st = "[]", OF m]
  show ?thesis by (simp add: post_def)
qed

end
